theory Spec2Isabelle
  imports Main "HOL-Library.Word" "HOL-Library.Sublist" "HOL-Library.Multiset"
begin

section \<open>The clone engine of zikrr: data model\<close>

text \<open>
  The development follows \<^verbatim>\<open>internal/git/clone.go\<close> and
  \<^verbatim>\<open>internal/git/repository.go\<close>.

  Conventions of the embedding.
  \<^item> Go's \<^verbatim>\<open>error\<close> results are values of the datatype \<open>error\<close>; \<open>None\<close> is
    \<^verbatim>\<open>nil\<close>. Errors that come from the operating system or from the git process are
    carried as their text (\<open>cause\<close>).
  \<^item> Everything \<^verbatim>\<open>CloneRepository\<close> asks of the outside (directory creation, the
    \<^verbatim>\<open>.git\<close> probe, removal, the git commands) is answered by a record \<open>world\<close>;
    everything it does to the outside is written, in program order, to a list of
    \<open>effect\<close>s. The progress callback \<^verbatim>\<open>opts.ProgressFunc\<close> is the effect
    \<open>ProgressFunc\<close>; the repository manager's callback is applied to those messages below.
  \<^item> \<^verbatim>\<open>time.Duration\<close> is an \<^verbatim>\<open>int64\<close> count of nanoseconds: a \<open>64 word\<close>,
    read with \<open>sint\<close>. The loop counter \<^verbatim>\<open>attempt\<close> and \<^verbatim>\<open>MaxRetries\<close> are Go
    \<^verbatim>\<open>int\<close>s; they are modelled as \<open>int\<close>, which is exact as long as
    \<^verbatim>\<open>MaxRetries\<close> is smaller than the largest \<^verbatim>\<open>int\<close> (the counter then never
    wraps).
  \<^item> Calls of the logging package \<^verbatim>\<open>pkg/util\<close> and the context deadlines are left
    out: a command that times out is a command the world answers with an error.
\<close>

datatype ExistingRepoStrategy = SkipExisting | OverwriteExisting | FetchOnly

type_synonym Duration = "64 word"

definition Second :: Duration where
  "Second = 1000000000"

definition Minute :: Duration where
  "Minute = 60 * Second"

record CloneOptions =
  URL :: string
  TargetDir :: string
  Branch :: string
  Timeout :: Duration
  MaxRetries :: int
  ConnTimeout :: Duration
  CloneTimeout :: Duration
  ExistingRepo :: ExistingRepoStrategy

definition DefaultCloneOptions :: CloneOptions where
  "DefaultCloneOptions =
     \<lparr>URL = [], TargetDir = [], Branch = [], Timeout = 0,
      MaxRetries = 3, ConnTimeout = 60 * Second, CloneTimeout = 10 * Minute,
      ExistingRepo = SkipExisting\<rparr>"

type_synonym cause = string

datatype error =
    External cause
  | ErrCreateDir cause
  | ErrAlreadyExists string
  | ErrRemove cause
  | ErrGetwd cause
  | ErrChdir cause
  | ErrFetch cause string
  | ErrReset cause string
  | ErrCloneFailed cause string
  | ErrCloneAfter int "error option"

text \<open>
  The answers of the outside to one call of \<^verbatim>\<open>CloneRepository\<close>: the error of
  \<^verbatim>\<open>os.MkdirAll\<close> (\<open>None\<close>: it succeeds), whether \<^verbatim>\<open>os.Stat\<close> finds the \<^verbatim>\<open>.git\<close> entry
  of the target directory, the errors of \<^verbatim>\<open>os.RemoveAll\<close>, \<^verbatim>\<open>os.Getwd\<close> (or the current
  directory) and \<^verbatim>\<open>os.Chdir\<close>, and what \<^verbatim>\<open>CombinedOutput\<close> returns for \<^verbatim>\<open>git fetch\<close>,
  \<^verbatim>\<open>git reset\<close> and the \<^verbatim>\<open>git clone\<close> of each attempt: \<open>None\<close> when the command
  succeeds, else the error and the output.
\<close>

record world =
  mkdirAll :: "cause option"
  statGit :: bool
  removeAll :: "cause option"
  getwd :: "cause + string"
  chdir :: "cause option"
  gitFetch :: "(cause \<times> string) option"
  gitReset :: "(cause \<times> string) option"
  gitClone :: "int \<Rightarrow> (cause \<times> string) option"

text \<open>
  What \<^verbatim>\<open>CloneRepository\<close> does to the outside: the calls of package \<^verbatim>\<open>os\<close>, the git
  commands with their arguments, \<^verbatim>\<open>time.Sleep\<close> and the calls of \<^verbatim>\<open>opts.ProgressFunc\<close>.
\<close>

datatype effect =
    MkdirAll string
  | RemoveAll string
  | Getwd
  | Chdir string
  | Git "string list"
  | Sleep Duration
  | ProgressFunc string

section \<open>Formatting (\<^verbatim>\<open>fmt.Sprintf\<close>, \<^verbatim>\<open>time.Duration.String\<close>)\<close>

definition digit :: "nat \<Rightarrow> char" where
  "digit n = ''0123456789'' ! (n mod 10)"

fun fmtInt :: "nat \<Rightarrow> string" where
  "fmtInt v = (if v < 10 then [digit v] else fmtInt (v div 10) @ [digit v])"

declare fmtInt.simps [simp del]

text \<open>The verb \<^verbatim>\<open>%d\<close> on an \<^verbatim>\<open>int\<close>.\<close>

definition itoa :: "int \<Rightarrow> string" where
  "itoa i = (if i < 0 then CHR ''-'' # fmtInt (nat (- i)) else fmtInt (nat i))"

text \<open>
  \<^verbatim>\<open>fmtFrac\<close> of package \<^verbatim>\<open>time\<close>: the fraction of \<open>v / 10 ^ prec\<close> without trailing
  zeros (and without the point when it is zero), and the quotient.
\<close>

fun fmtFrac :: "nat \<Rightarrow> nat \<Rightarrow> bool \<Rightarrow> string \<Rightarrow> string \<times> nat" where
  "fmtFrac prec v pr acc =
     (if prec = 0 then ((if pr then CHR ''.'' # acc else acc), v)
      else (let pr' = (pr \<or> v mod 10 \<noteq> 0)
            in fmtFrac (prec - 1) (v div 10) pr' (if pr' then digit v # acc else acc)))"

declare fmtFrac.simps [simp del]

text \<open>The verb \<^verbatim>\<open>%v\<close> on a \<^verbatim>\<open>time.Duration\<close>, as \<^verbatim>\<open>Duration.String\<close> prints it.\<close>

definition DurationString :: "Duration \<Rightarrow> string" where
  "DurationString d =
     (let neg = (sint d < 0);
          u = unat (if neg then - d else d);
          body =
            (if u < 1000000000 then
               (if u = 0 then ''0s''
                else if u < 1000 then fmtInt u @ ''ns''
                else if u < 1000000 then
                  (case fmtFrac 3 u False [] of
                     (frac, q) \<Rightarrow> fmtInt q @ frac @ [CHR 0xC2, CHR 0xB5, CHR ''s''])
                else
                  (case fmtFrac 6 u False [] of
                     (frac, q) \<Rightarrow> fmtInt q @ frac @ ''ms''))
             else
               (case fmtFrac 9 u False [] of
                  (frac, secs) \<Rightarrow>
                    (let s = fmtInt (secs mod 60) @ frac @ ''s'';
                         mins = secs div 60
                     in if mins > 0 then
                          (let m = fmtInt (mins mod 60) @ ''m'' @ s;
                               hours = mins div 60
                           in if hours > 0 then fmtInt hours @ ''h'' @ m else m)
                        else s)))
      in if neg then CHR ''-'' # body else body)"

text \<open>
  \<^verbatim>\<open>err.Error()\<close>: the text of each error the package builds with \<^verbatim>\<open>fmt.Errorf\<close>.
  The verb \<^verbatim>\<open>%w\<close> on a \<^verbatim>\<open>nil\<close> operand prints \<^verbatim>\<open>%!w(<nil>)\<close> and wraps nothing.
\<close>

fun errorString :: "error \<Rightarrow> string" where
  "errorString (External c) = c"
| "errorString (ErrCreateDir c) = ''failed to create target directory: '' @ c"
| "errorString (ErrAlreadyExists dir) = ''repository already exists: '' @ dir"
| "errorString (ErrRemove c) = ''failed to remove existing repository: '' @ c"
| "errorString (ErrGetwd c) = ''failed to get current directory: '' @ c"
| "errorString (ErrChdir c) = ''failed to change to repository directory: '' @ c"
| "errorString (ErrFetch c out) =
     ''failed to fetch updates: '' @ c @ [CHR 0x0A] @ ''Output: '' @ out"
| "errorString (ErrReset c out) =
     ''failed to reset branch: '' @ c @ [CHR 0x0A] @ ''Output: '' @ out"
| "errorString (ErrCloneFailed c out) =
     ''clone failed: '' @ c @ [CHR 0x0A] @ ''Output: '' @ out"
| "errorString (ErrCloneAfter n None) =
     ''failed to clone after '' @ itoa n @ '' attempts: %!w(<nil>)''"
| "errorString (ErrCloneAfter n (Some e)) =
     ''failed to clone after '' @ itoa n @ '' attempts: '' @ errorString e"

text \<open>
  \<^verbatim>\<open>errors.Unwrap\<close> on the errors of this package: the operand of \<^verbatim>\<open>%w\<close>, or
  \<^verbatim>\<open>nil\<close> where the error was built without \<^verbatim>\<open>%w\<close> or with a \<^verbatim>\<open>nil\<close> operand.
  (What an error of the operating system wraps in turn is not modelled.)
\<close>

fun Unwrap :: "error \<Rightarrow> error option" where
  "Unwrap (External c) = None"
| "Unwrap (ErrCreateDir c) = Some (External c)"
| "Unwrap (ErrAlreadyExists dir) = None"
| "Unwrap (ErrRemove c) = Some (External c)"
| "Unwrap (ErrGetwd c) = Some (External c)"
| "Unwrap (ErrChdir c) = Some (External c)"
| "Unwrap (ErrFetch c out) = Some (External c)"
| "Unwrap (ErrReset c out) = Some (External c)"
| "Unwrap (ErrCloneFailed c out) = Some (External c)"
| "Unwrap (ErrCloneAfter n e) = e"

section \<open>The existing-target resolver\<close>

text \<open>\<^verbatim>\<open>isGitRepo\<close>: whether \<^verbatim>\<open>os.Stat\<close> of the \<^verbatim>\<open>.git\<close> entry succeeds.\<close>

definition isGitRepo :: "world \<Rightarrow> string \<Rightarrow> bool" where
  "isGitRepo w dir = statGit w"

definition resetArgs :: "CloneOptions \<Rightarrow> string list" where
  "resetArgs opts =
     [''reset'', ''--hard''] @
     (if Branch opts \<noteq> [] then [''origin/'' @ Branch opts] else [''origin/HEAD''])"

definition fetchAndUpdate :: "world \<Rightarrow> CloneOptions \<Rightarrow> effect list \<times> error option" where
  "fetchAndUpdate w opts =
     (let e0 = [ProgressFunc (''Updating existing repository: '' @ URL opts), Getwd] in
      case getwd w of
        Inl c \<Rightarrow> (e0, Some (ErrGetwd c))
      | Inr currentDir \<Rightarrow>
          (let e1 = e0 @ [Chdir (TargetDir opts)] in
           case chdir w of
             Some c \<Rightarrow> (e1, Some (ErrChdir c))
           | None \<Rightarrow>
               (let e2 = e1 @ [Git [''fetch'', ''--all'', ''--prune'']] in
                case gitFetch w of
                  Some (c, out) \<Rightarrow> (e2 @ [Chdir currentDir], Some (ErrFetch c out))
                | None \<Rightarrow>
                    (let e3 = e2 @ [Git (resetArgs opts)] in
                     case gitReset w of
                       Some (c, out) \<Rightarrow> (e3 @ [Chdir currentDir], Some (ErrReset c out))
                     | None \<Rightarrow>
                         (e3 @ [ProgressFunc (''Successfully updated repository: '' @ URL opts),
                                Chdir currentDir], None)))))"

definition handleExistingRepo :: "world \<Rightarrow> CloneOptions \<Rightarrow> effect list \<times> error option" where
  "handleExistingRepo w opts =
     (if \<not> isGitRepo w (TargetDir opts) then ([], None)
      else case ExistingRepo opts of
        SkipExisting \<Rightarrow>
          ([ProgressFunc (''Skipping existing repository: '' @ URL opts)],
           Some (ErrAlreadyExists (TargetDir opts)))
      | OverwriteExisting \<Rightarrow>
          (let e = [ProgressFunc (''Removing existing repository: '' @ TargetDir opts),
                    RemoveAll (TargetDir opts)]
           in case removeAll w of
                Some c \<Rightarrow> (e, Some (ErrRemove c))
              | None \<Rightarrow> (e, None))
      | FetchOnly \<Rightarrow> fetchAndUpdate w opts)"

section \<open>The clone with retries\<close>

text \<open>
  \<^verbatim>\<open>time.Duration(1<<uint(attempt-1)) * time.Second\<close>: the constant \<^verbatim>\<open>1\<close> takes the type
  \<^verbatim>\<open>time.Duration\<close>, so the shift and the product are 64-bit and wrap.
\<close>

definition backoff :: "int \<Rightarrow> Duration" where
  "backoff attempt = push_bit (nat ((attempt - 1) mod 2 ^ 64)) (1 :: 64 word) * Second"

definition retryMsg :: "CloneOptions \<Rightarrow> int \<Rightarrow> string" where
  "retryMsg opts attempt =
     ''Retrying in '' @ DurationString (backoff attempt) @ ''... (attempt '' @
     itoa (attempt + 1) @ ''/'' @ itoa (MaxRetries opts) @ '')''"

definition cloneArgs :: "CloneOptions \<Rightarrow> string list" where
  "cloneArgs opts =
     [''clone''] @ (if Branch opts \<noteq> [] then [''-b'', Branch opts] else []) @
     [''--progress'', URL opts, TargetDir opts]"

definition failedMsg :: "int \<Rightarrow> error \<Rightarrow> string" where
  "failedMsg attempt lastErr =
     ''Clone attempt '' @ itoa (attempt + 1) @ '' failed: '' @ errorString lastErr"




text \<open>
  The loop \<^verbatim>\<open>for attempt := 0; attempt <= opts.MaxRetries; attempt++\<close> of
  \<^verbatim>\<open>CloneRepository\<close>, from the iteration \<open>attempt\<close> on, with the value of
  \<^verbatim>\<open>lastErr\<close> at that point, up to the final \<^verbatim>\<open>return\<close>.
\<close>

function cloneLoop ::
  "world \<Rightarrow> CloneOptions \<Rightarrow> int \<Rightarrow> error option \<Rightarrow> effect list \<times> error option" where
  "cloneLoop w opts attempt lastErr =
     (if attempt \<le> MaxRetries opts then
        (let run = (if attempt > 0
                    then [ProgressFunc (retryMsg opts attempt), Sleep (backoff attempt)]
                    else []) @ [Git (cloneArgs opts)]
         in case gitClone w attempt of
              None \<Rightarrow> (run @ [ProgressFunc (''Successfully cloned '' @ URL opts)], None)
            | Some (c, out) \<Rightarrow>
                (case cloneLoop w opts (attempt + 1) (Some (ErrCloneFailed c out)) of
                   (rest, res) \<Rightarrow>
                     (run @ [ProgressFunc (failedMsg attempt (ErrCloneFailed c out))] @ rest, res)))
      else ([], Some (ErrCloneAfter (MaxRetries opts) lastErr)))"
  by pat_completeness auto
termination
  by (relation "measure (\<lambda>(w, opts, attempt, lastErr). nat (MaxRetries opts + 1 - attempt))") auto

declare cloneLoop.simps [simp del]

definition CloneRepository :: "world \<Rightarrow> CloneOptions \<Rightarrow> effect list \<times> error option" where
  "CloneRepository w opts =
     (case mkdirAll w of
        Some c \<Rightarrow> ([MkdirAll (TargetDir opts)], Some (ErrCreateDir c))
      | None \<Rightarrow>
          (case handleExistingRepo w opts of
             (pre, Some err) \<Rightarrow>
               (if ExistingRepo opts = SkipExisting
                then (MkdirAll (TargetDir opts) # pre, None)
                else (MkdirAll (TargetDir opts) # pre, Some err))
           | (pre, None) \<Rightarrow>
               (case cloneLoop w opts 0 None of
                  (run, res) \<Rightarrow> (MkdirAll (TargetDir opts) # pre @ run, res))))"

text \<open>What a trace of effects contains.\<close>

fun isClone :: "effect \<Rightarrow> bool" where
  "isClone (Git args) = (args \<noteq> [] \<and> hd args = ''clone'')"
| "isClone _ = False"

fun isRemoval :: "effect \<Rightarrow> bool" where
  "isRemoval (RemoveAll dir) = True"
| "isRemoval _ = False"

fun isFetch :: "effect \<Rightarrow> bool" where
  "isFetch (Git args) = (args \<noteq> [] \<and> hd args = ''fetch'')"
| "isFetch _ = False"

fun sleeps :: "effect list \<Rightarrow> Duration list" where
  "sleeps [] = []"
| "sleeps (Sleep d # es) = d # sleeps es"
| "sleeps (e # es) = sleeps es"

fun messages :: "effect list \<Rightarrow> string list" where
  "messages [] = []"
| "messages (ProgressFunc m # es) = m # messages es"
| "messages (e # es) = messages es"

definition cloneAttempts :: "effect list \<Rightarrow> nat" where
  "cloneAttempts es = length (filter isClone es)"

section \<open>The repository manager\<close>

datatype RepositoryStatus =
    StatusPending
  | StatusCloning
  | StatusRetrying
  | StatusSuccess
  | StatusFailed
  | StatusSkipped
  | StatusUpdating

record CloneResult =
  RepoURL :: string
  Success :: bool
  Error :: "error option"

record Repository =
  Name :: string
  Organization :: string
  URL :: string
  Branch :: string
  Status :: RepositoryStatus
  Error :: "error option"
  Progress :: string
  ExistingRepo :: ExistingRepoStrategy

text \<open>
  \<^verbatim>\<open>AddRepository\<close> appends a fresh pending repository; the manager's slice of
  pointers is the list of the records they point to (every pointer is fresh, so no two
  entries alias).
\<close>

definition AddRepository ::
  "string \<Rightarrow> string \<Rightarrow> string \<Rightarrow> string \<Rightarrow> ExistingRepoStrategy \<Rightarrow>
   Repository list \<Rightarrow> Repository list" where
  "AddRepository org name url branch strategy repositories =
     repositories @
     [\<lparr>Name = name, Organization = org, URL = url, Branch = branch,
       Status = StatusPending, Error = None, Progress = [],
       ExistingRepo = strategy\<rparr>]"

text \<open>\<^verbatim>\<open>strings.Contains\<close>: the second string occurs in the first as a contiguous block.\<close>

definition Contains :: "string \<Rightarrow> string \<Rightarrow> bool" where
  "Contains s substr = sublist substr s"

text \<open>
  The closure \<^verbatim>\<open>CloneAll\<close> installs as \<^verbatim>\<open>opts.ProgressFunc\<close> for one repository
  (the sends on the \<^verbatim>\<open>updates\<close> channel carry the pointer and change no field).
\<close>

definition progressClosure :: "string \<Rightarrow> Repository \<Rightarrow> Repository" where
  "progressClosure status repo =
     repo\<lparr>Progress := status,
          Status := (if Contains status ''Updating'' then StatusUpdating
                     else if Contains status ''Skipping'' then StatusSkipped
                     else StatusCloning)\<rparr>"

text \<open>
  The options \<^verbatim>\<open>CloneAll\<close> prepares for a pending repository. \<open>targetDir\<close> stands for
  \<^verbatim>\<open>filepath.Join(rm.baseDir, repo.Organization, repo.Name)\<close>.
\<close>

definition jobOptions :: "string \<Rightarrow> Repository \<Rightarrow> CloneOptions" where
  "jobOptions targetDir repo =
     DefaultCloneOptions
       \<lparr>CloneOptions.URL := Repository.URL repo,
        TargetDir := targetDir,
        CloneOptions.Branch := Repository.Branch repo,
        CloneOptions.ExistingRepo := Repository.ExistingRepo repo\<rparr>"

text \<open>The body of one worker of \<^verbatim>\<open>CloneRepositories\<close>: the result it sends.\<close>

definition jobResult :: "world \<Rightarrow> CloneOptions \<Rightarrow> CloneResult" where
  "jobResult w opts =
     (let err = snd (CloneRepository w opts)
      in \<lparr>RepoURL = CloneOptions.URL opts, Success = (err = None), Error = err\<rparr>)"

text \<open>
  The inner loop of the collector: the index of the first repository whose URL is the
  result's.
\<close>

fun findRepository :: "Repository list \<Rightarrow> string \<Rightarrow> nat option" where
  "findRepository [] url = None"
| "findRepository (r # rs) url =
     (if Repository.URL r = url then Some 0 else map_option Suc (findRepository rs url))"

definition applyResult :: "CloneResult \<Rightarrow> Repository \<Rightarrow> Repository" where
  "applyResult result repo =
     (if Success result then
        (if Status repo \<noteq> StatusSkipped then repo\<lparr>Status := StatusSuccess\<rparr> else repo)
      else repo\<lparr>Status := StatusFailed, Error := CloneResult.Error result\<rparr>)"

definition handleResult :: "CloneResult \<Rightarrow> Repository list \<Rightarrow> Repository list" where
  "handleResult result repositories =
     (case findRepository repositories (RepoURL result) of
        None \<Rightarrow> repositories
      | Some i \<Rightarrow> repositories[i := applyResult result (repositories ! i)])"

text \<open>
  What happens to the repositories during a run: the worker of the repository at index
  \<open>i\<close> calls its progress closure, or the collector takes a result from the stream.
  (The closure is taken to be bound to the repository of its own iteration of the loop
  of \<^verbatim>\<open>CloneAll\<close>, as from Go 1.22 on; no statement below is about the callbacks of
  more than one repository.)
\<close>

datatype event = Callback nat string | Outcome CloneResult

fun applyEvent :: "event \<Rightarrow> Repository list \<Rightarrow> Repository list" where
  "applyEvent (Callback i status) repositories =
     (if i < length repositories
      then repositories[i := progressClosure status (repositories ! i)]
      else repositories)"
| "applyEvent (Outcome result) repositories = handleResult result repositories"

text \<open>
  The events of the job of repository \<open>i\<close>: its progress messages in program order, then
  its result.
\<close>

definition jobEvents :: "world \<Rightarrow> CloneOptions \<Rightarrow> nat \<Rightarrow> event list" where
  "jobEvents w opts i =
     map (Callback i) (messages (fst (CloneRepository w opts))) @ [Outcome (jobResult w opts)]"

fun runEvents :: "event list \<Rightarrow> Repository list \<Rightarrow> Repository list" where
  "runEvents [] repositories = repositories"
| "runEvents (e # es) repositories = runEvents es (applyEvent e repositories)"

text \<open>The status of repository \<open>i\<close> before the first event and after each one.\<close>

fun statusHistory :: "nat \<Rightarrow> event list \<Rightarrow> Repository list \<Rightarrow> RepositoryStatus list" where
  "statusHistory i [] repositories = [Status (repositories ! i)]"
| "statusHistory i (e # es) repositories =
     Status (repositories ! i) # statusHistory i es (applyEvent e repositories)"

definition terminal :: "RepositoryStatus \<Rightarrow> bool" where
  "terminal s = (s = StatusSuccess \<or> s = StatusFailed \<or> s = StatusSkipped)"

text \<open>
  The results of one call of \<^verbatim>\<open>CloneRepositories\<close>, in submission order: worker \<open>i\<close>
  runs \<^verbatim>\<open>CloneRepository\<close> on \<open>repos ! i\<close> against its own answers of the outside,
  \<open>worlds i\<close>. (The order in which they reach the stream is not determined by the code.)
\<close>

definition batchResults :: "(nat \<Rightarrow> world) \<Rightarrow> CloneOptions list \<Rightarrow> CloneResult list" where
  "batchResults worlds repos = map (\<lambda>i. jobResult (worlds i) (repos ! i)) [0..<length repos]"

section \<open>The concurrent run of \<^verbatim>\<open>CloneRepositories\<close>\<close>

text \<open>
  \<^verbatim>\<open>CloneRepositories\<close> starts one goroutine per job and a goroutine that waits for all
  of them and closes the result channel. The run is modelled as a transition system
  whose steps are the synchronisation points of the code; any interleaving of the
  goroutines is a sequence of steps.

  A worker goes through these stages:
  \<^item> \<open>Acquire\<close>: started, at \<^verbatim>\<open>c.semaphore <- struct{}{}\<close>;
  \<^item> \<open>Run\<close>: it holds a slot and executes \<^verbatim>\<open>CloneRepository\<close> up to the send
    \<^verbatim>\<open>results <- result\<close>;
  \<^item> \<open>Release\<close>: the result is sent, the deferred \<^verbatim>\<open><-c.semaphore\<close> is next;
  \<^item> \<open>Done\<close>: the slot is given back, the deferred \<^verbatim>\<open>c.wg.Done()\<close> is next;
  \<^item> \<open>Exited\<close>.

  The channels follow Go's semantics: a send on a buffered channel proceeds only while
  the buffer holds fewer elements than its capacity, a receive only while it holds one.
  \<^verbatim>\<open>c.semaphore\<close> has capacity \<^verbatim>\<open>maxConcurrent\<close> (a negative capacity makes
  \<^verbatim>\<open>make\<close> panic, so that no cloner exists: the capacity is a \<open>nat\<close>) and \<^verbatim>\<open>results\<close> has
  capacity \<^verbatim>\<open>len(repos)\<close>. \<^verbatim>\<open>wg.Wait()\<close> returns only when the counter is zero.

  A worker that runs is taken to return from \<^verbatim>\<open>CloneRepository\<close>: the commands are bounded
  by the context deadlines and the sleeps are finite; the progress callback has to return
  too (the one \<^verbatim>\<open>CloneAll\<close> installs blocks while the \<^verbatim>\<open>updates\<close> channel is full, so it
  returns as long as that channel is read).
\<close>

datatype stage = Acquire | Run | Release | Done | Exited

record pool =
  workers :: "stage list"
  semaphore :: nat
  wg :: int
  results :: "CloneResult list"
  closed :: bool
  received :: "CloneResult list"

definition initial :: pool where
  "initial = \<lparr>workers = [], semaphore = 0, wg = 0, results = [], closed = False, received = []\<rparr>"

text \<open>
  One step of the run of a cloner with \<open>maxConcurrent\<close> slots on jobs whose workers
  compute the results \<open>rs\<close> (worker \<open>i\<close> computes \<open>rs ! i\<close>, the \<open>jobResult\<close> of its job).
  \<^item> \<open>spawn\<close>: the loop over \<^verbatim>\<open>repos\<close> does \<^verbatim>\<open>c.wg.Add(1)\<close> and starts the next worker;
  \<^item> \<open>acquire\<close>: the send \<^verbatim>\<open>c.semaphore <- struct{}{}\<close> of worker \<open>i\<close> finds room;
  \<^item> \<open>send\<close>: worker \<open>i\<close> has run \<^verbatim>\<open>CloneRepository\<close> and \<^verbatim>\<open>results <- result\<close> finds room;
  \<^item> \<open>release\<close>: the deferred \<^verbatim>\<open><-c.semaphore\<close> of worker \<open>i\<close> takes a token back;
  \<^item> \<open>leave\<close>: the deferred \<^verbatim>\<open>c.wg.Done()\<close> of worker \<open>i\<close>;
  \<^item> \<open>close\<close>: the loop is over, \<^verbatim>\<open>c.wg.Wait()\<close> returns and the deferred
    \<^verbatim>\<open>close(results)\<close> runs;
  \<^item> \<open>receive\<close>: the reader of the stream (the loop \<^verbatim>\<open>for result := range results\<close> of
    \<^verbatim>\<open>CloneAll\<close>) takes the next result.
\<close>

inductive step :: "nat \<Rightarrow> CloneResult list \<Rightarrow> pool \<Rightarrow> pool \<Rightarrow> bool"
  for maxConcurrent :: nat and rs :: "CloneResult list" where
  spawn:
    "length (workers s) < length rs \<Longrightarrow>
     step maxConcurrent rs s (s\<lparr>workers := workers s @ [Acquire], wg := wg s + 1\<rparr>)"
| acquire:
    "i < length (workers s) \<Longrightarrow> workers s ! i = Acquire \<Longrightarrow> semaphore s < maxConcurrent \<Longrightarrow>
     step maxConcurrent rs s
       (s\<lparr>workers := (workers s)[i := Run], semaphore := semaphore s + 1\<rparr>)"
| send:
    "i < length (workers s) \<Longrightarrow> workers s ! i = Run \<Longrightarrow> length (results s) < length rs \<Longrightarrow>
     step maxConcurrent rs s
       (s\<lparr>workers := (workers s)[i := Release], results := results s @ [rs ! i]\<rparr>)"
| release:
    "i < length (workers s) \<Longrightarrow> workers s ! i = Release \<Longrightarrow> 0 < semaphore s \<Longrightarrow>
     step maxConcurrent rs s
       (s\<lparr>workers := (workers s)[i := Done], semaphore := semaphore s - 1\<rparr>)"
| leave:
    "i < length (workers s) \<Longrightarrow> workers s ! i = Done \<Longrightarrow>
     step maxConcurrent rs s (s\<lparr>workers := (workers s)[i := Exited], wg := wg s - 1\<rparr>)"
| close:
    "length (workers s) = length rs \<Longrightarrow> wg s = 0 \<Longrightarrow> \<not> closed s \<Longrightarrow>
     step maxConcurrent rs s (s\<lparr>closed := True\<rparr>)"
| receive:
    "results s = r # rest \<Longrightarrow>
     step maxConcurrent rs s (s\<lparr>results := rest, received := received s @ [r]\<rparr>)"

inductive reachable :: "nat \<Rightarrow> CloneResult list \<Rightarrow> pool \<Rightarrow> bool"
  for maxConcurrent :: nat and rs :: "CloneResult list" where
  start: "reachable maxConcurrent rs initial"
| after: "reachable maxConcurrent rs s \<Longrightarrow> step maxConcurrent rs s s' \<Longrightarrow>
         reachable maxConcurrent rs s'"

text \<open>The workers that run an executor, and those that hold a slot.\<close>

definition running :: "pool \<Rightarrow> nat" where
  "running s = length (filter (\<lambda>st. st = Run) (workers s))"

fun holding :: "stage \<Rightarrow> bool" where
  "holding Run = True"
| "holding Release = True"
| "holding _ = False"

definition holders :: "pool \<Rightarrow> nat" where
  "holders s = length (filter holding (workers s))"







text \<open>
  The same steps as a function, to run a given schedule: each action names the rule and
  the worker, and is refused (\<open>None\<close>) when the rule's conditions do not hold.
\<close>

datatype action = Start | Admit nat | Deliver nat | GiveBack nat | Leave nat | Close | Take

fun perform :: "nat \<Rightarrow> CloneResult list \<Rightarrow> action \<Rightarrow> pool \<Rightarrow> pool option" where
  "perform maxConcurrent rs Start s =
     (if length (workers s) < length rs
      then Some (s\<lparr>workers := workers s @ [Acquire], wg := wg s + 1\<rparr>) else None)"
| "perform maxConcurrent rs (Admit i) s =
     (if i < length (workers s) \<and> workers s ! i = Acquire \<and> semaphore s < maxConcurrent
      then Some (s\<lparr>workers := (workers s)[i := Run], semaphore := semaphore s + 1\<rparr>)
      else None)"
| "perform maxConcurrent rs (Deliver i) s =
     (if i < length (workers s) \<and> workers s ! i = Run \<and> length (results s) < length rs
      then Some (s\<lparr>workers := (workers s)[i := Release], results := results s @ [rs ! i]\<rparr>)
      else None)"
| "perform maxConcurrent rs (GiveBack i) s =
     (if i < length (workers s) \<and> workers s ! i = Release \<and> 0 < semaphore s
      then Some (s\<lparr>workers := (workers s)[i := Done], semaphore := semaphore s - 1\<rparr>)
      else None)"
| "perform maxConcurrent rs (Leave i) s =
     (if i < length (workers s) \<and> workers s ! i = Done
      then Some (s\<lparr>workers := (workers s)[i := Exited], wg := wg s - 1\<rparr>) else None)"
| "perform maxConcurrent rs Close s =
     (if length (workers s) = length rs \<and> wg s = 0 \<and> \<not> closed s
      then Some (s\<lparr>closed := True\<rparr>) else None)"
| "perform maxConcurrent rs Take s =
     (case results s of
        [] \<Rightarrow> None
      | r # rest \<Rightarrow> Some (s\<lparr>results := rest, received := received s @ [r]\<rparr>))"

fun schedule :: "nat \<Rightarrow> CloneResult list \<Rightarrow> action list \<Rightarrow> pool \<Rightarrow> pool option" where
  "schedule maxConcurrent rs [] s = Some s"
| "schedule maxConcurrent rs (a # as) s =
     (case perform maxConcurrent rs a s of
        None \<Rightarrow> None
      | Some s' \<Rightarrow> schedule maxConcurrent rs as s')"


section \<open>Example inputs\<close>

text \<open>A fresh target directory, and a remote that refuses every clone.\<close>

definition exWorld :: world where
  "exWorld =
     \<lparr>mkdirAll = None, statGit = False, removeAll = None, getwd = Inr ''/home/dev'',
      chdir = None, gitFetch = None, gitReset = None,
      gitClone = (\<lambda>attempt. Some (''exit status 128'', ''fatal: unable to access the remote''))\<rparr>"

definition exOptions :: CloneOptions where
  "exOptions =
     DefaultCloneOptions
       \<lparr>CloneOptions.URL := ''https://github.com/acme/tool.git'',
        TargetDir := ''/srv/acme/tool''\<rparr>"

text \<open>
  The target directory holds a working copy; a clone into it fails, as git refuses a
  destination that is not empty.
\<close>

definition exWorldExisting :: world where
  "exWorldExisting =
     exWorld
       \<lparr>statGit := True,
        gitClone := (\<lambda>attempt. Some (''exit status 128'',
          ''fatal: destination path already exists and is not an empty directory.''))\<rparr>"

text \<open>Repositories whose names happen to hold a word the progress closure looks for.\<close>

definition exUpdatingRepo :: "Repository list" where
  "exUpdatingRepo =
     AddRepository ''acme'' ''Updating'' ''https://github.com/acme/Updating.git'' []
       SkipExisting []"

definition exSkippingRepo :: "Repository list" where
  "exSkippingRepo =
     AddRepository ''acme'' ''Skipping'' ''https://github.com/acme/Skipping.git'' []
       SkipExisting []"

definition exWorldNotFound :: world where
  "exWorldNotFound =
     exWorld
       \<lparr>gitClone := (\<lambda>attempt. Some (''exit status 128'',
          ''fatal: repository 'https://github.com/acme/Skipping.git/' not found''))\<rparr>"

text \<open>The working copy exists and the remote cannot be reached for the update.\<close>

definition exWorldFetchFails :: world where
  "exWorldFetchFails =
     exWorldExisting
       \<lparr>gitFetch := Some (''exit status 128'', ''fatal: unable to access the remote'')\<rparr>"

text \<open>The working copy exists and cannot be removed.\<close>

definition exWorldRemoveFails :: world where
  "exWorldRemoveFails =
     exWorldExisting\<lparr>removeAll := Some ''unlinkat /srv/acme/tool: permission denied''\<rparr>"

text \<open>Three registered repositories, the last two with the same source URL.\<close>

definition exDuplicates :: "Repository list" where
  "exDuplicates =
     AddRepository ''acme'' ''fork'' ''https://github.com/acme/tool.git'' [] OverwriteExisting
       (AddRepository ''acme'' ''tool'' ''https://github.com/acme/tool.git'' [] SkipExisting
         (AddRepository ''acme'' ''docs'' ''https://github.com/acme/docs.git'' [] SkipExisting []))"

text \<open>A fresh target directory and a clone that succeeds at once.\<close>

definition exWorldOk :: world where
  "exWorldOk = exWorld\<lparr>gitClone := (\<lambda>attempt. None)\<rparr>"

text \<open>
  A batch of two jobs: the first overwrites a working copy that cannot be removed, the
  second clones into a fresh directory.
\<close>

definition exBatch :: "CloneOptions list" where
  "exBatch =
     [exOptions\<lparr>CloneOptions.ExistingRepo := OverwriteExisting\<rparr>,
      exOptions\<lparr>CloneOptions.URL := ''https://github.com/acme/docs.git'',
                TargetDir := ''/srv/acme/docs''\<rparr>]"

definition exBatchWorlds :: "nat \<Rightarrow> world" where
  "exBatchWorlds i = (if i = 0 then exWorldRemoveFails else exWorldOk)"

text \<open>
  A run of the example batch on a cloner with one slot: the second job is admitted
  first, the first one only after the slot is given back; then the stream is closed and
  read.
\<close>

definition exSchedule :: "action list" where
  "exSchedule =
     [Start, Start, Admit 1, Deliver 1, GiveBack 1, Admit 0, Leave 1, Deliver 0, GiveBack 0,
      Leave 0, Close, Take, Take]"

section \<open>Properties of the retry loop\<close>



lemma cloneLoop_exhausted:
  "MaxRetries opts < attempt \<Longrightarrow>
   cloneLoop w opts attempt lastErr = ([], Some (ErrCloneAfter (MaxRetries opts) lastErr))"
  by (simp add: cloneLoop.simps)

lemma cloneLoop_failed:
  assumes "attempt \<le> MaxRetries opts" and "gitClone w attempt = Some (c, out)"
  shows "cloneLoop w opts attempt lastErr =
     ((if attempt > 0 then [ProgressFunc (retryMsg opts attempt), Sleep (backoff attempt)] else []) @
      [Git (cloneArgs opts), ProgressFunc (failedMsg attempt (ErrCloneFailed c out))] @
      fst (cloneLoop w opts (attempt + 1) (Some (ErrCloneFailed c out))),
      snd (cloneLoop w opts (attempt + 1) (Some (ErrCloneFailed c out))))"
  using assms by (subst cloneLoop.simps) (simp add: split_beta)




lemma all_fail_result:
  "\<forall>k. attempt \<le> k \<and> k \<le> MaxRetries opts \<longrightarrow> gitClone w k \<noteq> None \<Longrightarrow>
   attempt \<le> MaxRetries opts \<Longrightarrow>
   gitClone w (MaxRetries opts) = Some (c, out) \<Longrightarrow>
   snd (cloneLoop w opts attempt lastErr) =
     Some (ErrCloneAfter (MaxRetries opts) (Some (ErrCloneFailed c out)))"
proof (induction w opts attempt lastErr rule: cloneLoop.induct)
  case (1 w opts attempt lastErr)
  from "1.prems" obtain c' out' where g: "gitClone w attempt = Some (c', out')"
    by (cases "gitClone w attempt") auto
  show ?case
  proof (cases "attempt = MaxRetries opts")
    case True
    then have "c' = c" "out' = out" using g "1.prems"(3) by simp_all
    moreover have "snd (cloneLoop w opts attempt lastErr) =
        snd (cloneLoop w opts (attempt + 1) (Some (ErrCloneFailed c' out')))"
      by (simp add: cloneLoop_failed[OF "1.prems"(2) g])
    moreover have "MaxRetries opts < attempt + 1" using True by simp
    ultimately show ?thesis
      by (simp add: cloneLoop_exhausted)
  next
    case False
    then have "attempt + 1 \<le> MaxRetries opts" using "1.prems" by simp
    then show ?thesis
      using "1.IH"[OF "1.prems"(2) refl g] "1.prems"
      by (simp add: cloneLoop_failed[OF "1.prems"(2) g])
  qed
qed




lemma handleExistingRepo_quiet:
  "cloneAttempts (fst (handleExistingRepo w opts)) = 0 \<and> sleeps (fst (handleExistingRepo w opts)) = []"
  by (simp add: handleExistingRepo_def fetchAndUpdate_def cloneAttempts_def resetArgs_def Let_def
      split: ExistingRepoStrategy.split option.split sum.split prod.split)








lemmas eval_defs =
  CloneRepository_def handleExistingRepo_def fetchAndUpdate_def isGitRepo_def
  cloneLoop.simps cloneArgs_def resetArgs_def failedMsg_def jobOptions_def
  DefaultCloneOptions_def itoa_def fmtInt.simps digit_def Let_def


lemma CloneRepository_proceeds:
  assumes "mkdirAll w = None" and "snd (handleExistingRepo w opts) = None"
  shows "CloneRepository w opts =
     (MkdirAll (TargetDir opts) # fst (handleExistingRepo w opts) @ fst (cloneLoop w opts 0 None),
      snd (cloneLoop w opts 0 None))"
  using assms by (cases "handleExistingRepo w opts") (simp add: CloneRepository_def split_beta)

lemma CloneRepository_resolver_error:
  assumes "mkdirAll w = None" and "snd (handleExistingRepo w opts) = Some err"
    and "CloneOptions.ExistingRepo opts \<noteq> SkipExisting"
  shows "CloneRepository w opts = (MkdirAll (TargetDir opts) # fst (handleExistingRepo w opts), Some err)"
  using assms by (cases "handleExistingRepo w opts") (simp add: CloneRepository_def)

lemma fetchAndUpdate_one_fetch:
  "length (filter isFetch (fst (fetchAndUpdate w opts))) \<le> 1"
  by (simp add: fetchAndUpdate_def resetArgs_def Let_def
      split: option.split sum.split prod.split)

lemma handleExistingRepo_FetchOnly:
  "CloneOptions.ExistingRepo opts = FetchOnly \<Longrightarrow> statGit w \<Longrightarrow>
   handleExistingRepo w opts = fetchAndUpdate w opts"
  by (simp add: handleExistingRepo_def isGitRepo_def)

section \<open>Properties of the manager\<close>

lemma findRepository_first:
  "i < length rs \<Longrightarrow> Repository.URL (rs ! i) = url \<Longrightarrow>
   \<forall>j<i. Repository.URL (rs ! j) \<noteq> url \<Longrightarrow> findRepository rs url = Some i"
proof (induction rs arbitrary: i)
  case Nil
  then show ?case by simp
next
  case (Cons r rs)
  show ?case
  proof (cases i)
    case 0
    with Cons.prems show ?thesis by simp
  next
    case (Suc i')
    from Cons.prems(3) Suc have "Repository.URL ((r # rs) ! 0) \<noteq> url" by blast
    then have r: "Repository.URL r \<noteq> url" by simp
    have "\<forall>j<i'. Repository.URL (rs ! j) \<noteq> url"
    proof (intro allI impI)
      fix j assume "j < i'"
      then have "Suc j < i" using Suc by simp
      with Cons.prems(3) have "Repository.URL ((r # rs) ! Suc j) \<noteq> url" by blast
      then show "Repository.URL (rs ! j) \<noteq> url" by simp
    qed
    moreover have "i' < length rs" "Repository.URL (rs ! i') = url"
      using Cons.prems Suc by simp_all
    ultimately have "findRepository rs url = Some i'" by (intro Cons.IH)
    with r Suc show ?thesis by simp
  qed
qed


lemma skip_existing_run:
  assumes "CloneOptions.ExistingRepo opts = SkipExisting" and "statGit w" and "mkdirAll w = None"
  shows "CloneRepository w opts =
     ([MkdirAll (TargetDir opts),
       ProgressFunc (''Skipping existing repository: '' @ CloneOptions.URL opts)], None)"
  using assms by (simp add: CloneRepository_def handleExistingRepo_def isGitRepo_def)

lemma skip_notice_Contains:
  "Contains (''Skipping existing repository: '' @ url) ''Skipping''"
proof -
  have "prefix ''Skipping'' (''Skipping'' @ '' existing repository: '' @ url)"
    by (rule prefixI) simp
  then have "prefix ''Skipping'' (''Skipping existing repository: '' @ url)" by simp
  then show ?thesis unfolding Contains_def by (rule prefix_imp_sublist)
qed

lemma skip_existing_status:
  assumes "i < length repositories"
    and "Repository.ExistingRepo (repositories ! i) = SkipExisting"
    and "\<forall>j<i. Repository.URL (repositories ! j) \<noteq> Repository.URL (repositories ! i)"
    and "statGit w" and "mkdirAll w = None"
    and "\<not> Contains (''Skipping existing repository: '' @ Repository.URL (repositories ! i)) ''Updating''"
  shows "Status (runEvents (jobEvents w (jobOptions targetDir (repositories ! i)) i) repositories ! i) =
     StatusSkipped"
proof -
  define opts where "opts = jobOptions targetDir (repositories ! i)"
  define notice where "notice = ''Skipping existing repository: '' @ Repository.URL (repositories ! i)"
  define result where
    "result = \<lparr>RepoURL = Repository.URL (repositories ! i), Success = True, Error = None\<rparr>"
  define marked where "marked = repositories[i := progressClosure notice (repositories ! i)]"
  have o: "CloneOptions.ExistingRepo opts = SkipExisting"
    "CloneOptions.URL opts = Repository.URL (repositories ! i)"
    using assms(2) by (simp_all add: opts_def jobOptions_def)
  have run: "CloneRepository w opts = ([MkdirAll (TargetDir opts), ProgressFunc notice], None)"
    using skip_existing_run[OF o(1) assms(4,5)] o(2) by (simp add: notice_def)
  have ev: "jobEvents w opts i = [Callback i notice, Outcome result]"
    by (simp add: jobEvents_def jobResult_def run o(2) result_def)
  have "Contains notice ''Skipping''" unfolding notice_def by (rule skip_notice_Contains)
  moreover have "\<not> Contains notice ''Updating''" using assms(6) by (simp add: notice_def)
  ultimately have pc: "Status (progressClosure notice (repositories ! i)) = StatusSkipped"
    by (simp add: progressClosure_def)
  have len: "length marked = length repositories" by (simp add: marked_def)
  have at: "marked ! i = progressClosure notice (repositories ! i)"
    using assms(1) by (simp add: marked_def)
  have st: "Status (marked ! i) = StatusSkipped" using at pc by simp
  have url_i: "Repository.URL (marked ! i) = RepoURL result"
    by (simp add: at progressClosure_def result_def)
  have url_j: "\<forall>j<i. Repository.URL (marked ! j) \<noteq> RepoURL result"
    using assms(3) by (simp add: marked_def result_def)
  have "findRepository marked (RepoURL result) = Some i"
    using assms(1) len url_i url_j by (intro findRepository_first) simp_all
  then have "handleResult result marked = marked[i := applyResult result (marked ! i)]"
    by (simp add: handleResult_def)
  moreover have "applyResult result (marked ! i) = marked ! i"
    using st by (simp add: applyResult_def result_def)
  ultimately have "handleResult result marked = marked" by simp
  moreover have "applyEvent (Callback i notice) repositories = marked"
    using assms(1) by (simp add: marked_def)
  ultimately have "runEvents (jobEvents w opts i) repositories = marked"
    by (simp add: ev)
  with st show ?thesis by (simp add: opts_def)
qed

section \<open>Properties of the concurrent run\<close>

subsection \<open>Lists of stages\<close>

lemma filter_update_length:
  "i < length xs \<Longrightarrow>
   length (filter P (xs[i := y])) + (if P (xs ! i) then 1 else 0) =
   length (filter P xs) + (if P y then 1 else 0)"
proof (induction xs arbitrary: i)
  case Nil
  then show ?case by simp
next
  case (Cons x xs)
  show ?case
  proof (cases i)
    case 0
    then show ?thesis by simp
  next
    case (Suc j)
    with Cons.prems have "j < length xs" by simp
    from Cons.IH[OF this] Suc show ?thesis by simp
  qed
qed








subsection \<open>Invariants of the run\<close>

lemma step_semaphore:
  assumes "step maxConcurrent rs s s'" and "semaphore s = holders s"
  shows "semaphore s' = holders s'"
  using assms
proof (cases rule: step.cases)
  case spawn
  with assms(2) show ?thesis by (simp add: holders_def)
next
  case (acquire i)
  from filter_update_length[OF acquire(2), of holding Run] acquire(3) assms(2)
  show ?thesis unfolding acquire(1) by (simp add: holders_def)
next
  case (send i)
  from filter_update_length[OF send(2), of holding Release] send(3) assms(2)
  show ?thesis unfolding send(1) by (simp add: holders_def)
next
  case (release i)
  from filter_update_length[OF release(2), of holding Done] release(3,4) assms(2)
  show ?thesis unfolding release(1) by (simp add: holders_def)
next
  case (leave i)
  from filter_update_length[OF leave(2), of holding Exited] leave(3) assms(2)
  show ?thesis unfolding leave(1) by (simp add: holders_def)
next
  case close
  with assms(2) show ?thesis by (simp add: holders_def)
next
  case (receive r rest)
  with assms(2) show ?thesis by (simp add: holders_def)
qed

lemma reachable_semaphore: "reachable maxConcurrent rs s \<Longrightarrow> semaphore s = holders s"
  by (induction rule: reachable.induct) (simp_all add: initial_def holders_def step_semaphore)

lemma step_bound:
  assumes "step maxConcurrent rs s s'" and "semaphore s \<le> maxConcurrent"
  shows "semaphore s' \<le> maxConcurrent"
  using assms by (cases rule: step.cases) simp_all

lemma reachable_bound: "reachable maxConcurrent rs s \<Longrightarrow> semaphore s \<le> maxConcurrent"
  by (induction rule: reachable.induct) (simp_all add: initial_def step_bound)










lemma perform_step:
  assumes "perform maxConcurrent rs a s = Some s'"
  shows "step maxConcurrent rs s s'"
proof (cases a)
  case Start
  with assms have g: "length (workers s) < length rs"
    and e: "s' = s\<lparr>workers := workers s @ [Acquire], wg := wg s + 1\<rparr>"
    by (simp_all split: if_splits)
  show ?thesis unfolding e using g by (rule step.spawn)
next
  case (Admit i)
  with assms have g: "i < length (workers s)" "workers s ! i = Acquire"
      "semaphore s < maxConcurrent"
    and e: "s' = s\<lparr>workers := (workers s)[i := Run], semaphore := semaphore s + 1\<rparr>"
    by (simp_all split: if_splits)
  show ?thesis unfolding e using g by (rule step.acquire)
next
  case (Deliver i)
  with assms have g: "i < length (workers s)" "workers s ! i = Run"
      "length (results s) < length rs"
    and e: "s' = s\<lparr>workers := (workers s)[i := Release], results := results s @ [rs ! i]\<rparr>"
    by (simp_all split: if_splits)
  show ?thesis unfolding e using g by (rule step.send)
next
  case (GiveBack i)
  with assms have g: "i < length (workers s)" "workers s ! i = Release" "0 < semaphore s"
    and e: "s' = s\<lparr>workers := (workers s)[i := Done], semaphore := semaphore s - 1\<rparr>"
    by (simp_all split: if_splits)
  show ?thesis unfolding e using g by (rule step.release)
next
  case (Leave i)
  with assms have g: "i < length (workers s)" "workers s ! i = Done"
    and e: "s' = s\<lparr>workers := (workers s)[i := Exited], wg := wg s - 1\<rparr>"
    by (simp_all split: if_splits)
  show ?thesis unfolding e using g by (rule step.leave)
next
  case Close
  with assms have g: "length (workers s) = length rs" "wg s = 0" "\<not> closed s"
    and e: "s' = s\<lparr>closed := True\<rparr>"
    by (simp_all split: if_splits)
  show ?thesis unfolding e using g by (rule step.close)
next
  case Take
  with assms obtain r rest where g: "results s = r # rest"
    and e: "s' = s\<lparr>results := rest, received := received s @ [r]\<rparr>"
    by (cases "results s") simp_all
  show ?thesis unfolding e using g by (rule step.receive)
qed

lemma step_perform:
  assumes "step maxConcurrent rs s s'"
  shows "\<exists>a. perform maxConcurrent rs a s = Some s'"
  using assms
proof (cases rule: step.cases)
  case spawn
  then have "perform maxConcurrent rs Start s = Some s'" by simp
  then show ?thesis ..
next
  case (acquire i)
  then have "perform maxConcurrent rs (Admit i) s = Some s'" by simp
  then show ?thesis ..
next
  case (send i)
  then have "perform maxConcurrent rs (Deliver i) s = Some s'" by simp
  then show ?thesis ..
next
  case (release i)
  then have "perform maxConcurrent rs (GiveBack i) s = Some s'" by simp
  then show ?thesis ..
next
  case (leave i)
  then have "perform maxConcurrent rs (Leave i) s = Some s'" by simp
  then show ?thesis ..
next
  case close
  then have "perform maxConcurrent rs Close s = Some s'" by simp
  then show ?thesis ..
next
  case (receive r rest)
  then have "perform maxConcurrent rs Take s = Some s'" by simp
  then show ?thesis ..
qed

lemma schedule_reachable:
  "reachable maxConcurrent rs s \<Longrightarrow> schedule maxConcurrent rs as s = Some s' \<Longrightarrow>
   reachable maxConcurrent rs s'"
proof (induction as arbitrary: s)
  case Nil
  then show ?case by simp
next
  case (Cons a as)
  from Cons.prems(2) obtain t where t: "perform maxConcurrent rs a s = Some t"
    and rest: "schedule maxConcurrent rs as t = Some s'"
    by (auto split: option.splits)
  from t have "step maxConcurrent rs s t" by (rule perform_step)
  with Cons.prems(1) have "reachable maxConcurrent rs t" by (rule reachable.after)
  then show ?case using rest by (rule Cons.IH)
qed



lemma release_enabled:
  assumes "reachable maxConcurrent rs s" and "i < length (workers s)"
    and "workers s ! i = Release"
  shows "step maxConcurrent rs s
           (s\<lparr>workers := (workers s)[i := Done], semaphore := semaphore s - 1\<rparr>)"
proof -
  have "workers s ! i \<in> set (workers s)" using assms(2) by (rule nth_mem)
  then have "workers s ! i \<in> set (filter holding (workers s))" using assms(3) by simp
  then have "0 < length (filter holding (workers s))" by (simp only: length_pos_if_in_set)
  then have "0 < semaphore s"
    using reachable_semaphore[OF assms(1)] by (simp add: holders_def)
  with assms(2,3) show ?thesis by (rule step.release)
qed



lemma running_holders: "running s \<le> holders s"
proof -
  have "length (filter (\<lambda>st. st = Run) ws) \<le> length (filter holding ws)" for ws
    by (induction ws) auto
  then show ?thesis by (simp add: running_def holders_def)
qed

lemma exBatch_results:
  "batchResults exBatchWorlds exBatch =
     [\<lparr>RepoURL = ''https://github.com/acme/tool.git'', Success = False,
       Error = Some (ErrRemove ''unlinkat /srv/acme/tool: permission denied'')\<rparr>,
      \<lparr>RepoURL = ''https://github.com/acme/docs.git'', Success = True, Error = None\<rparr>]"
  by (simp add: batchResults_def jobResult_def eval_defs exBatchWorlds_def exWorldOk_def
      exWorldRemoveFails_def exWorldExisting_def exWorld_def exBatch_def exOptions_def upt_rec)


lemma exSchedule_prefix:
  "schedule 1 [a, b] (take 3 exSchedule) initial =
     Some \<lparr>workers = [Acquire, Run], semaphore = 1, wg = 2, results = [], closed = False,
           received = []\<rparr>"
  by (simp add: exSchedule_def initial_def)

lemma exSchedule_sent:
  "schedule 1 [a, b] (take 4 exSchedule) initial =
     Some \<lparr>workers = [Acquire, Release], semaphore = 1, wg = 2, results = [b], closed = False,
           received = []\<rparr>"
  by (simp add: exSchedule_def initial_def)


lemma enters_run:
  assumes "step maxConcurrent rs s s'" and "i < length (workers s)"
    and "workers s ! i \<noteq> Run" and "workers s' ! i = Run"
  shows "workers s ! i = Acquire \<and> semaphore s < maxConcurrent \<and> semaphore s' = semaphore s + 1"
  using assms(1)
proof (cases rule: step.cases)
  case spawn
  with assms(2,3,4) show ?thesis by (simp add: nth_append)
next
  case (acquire j)
  with assms(2,3,4) show ?thesis by (cases "i = j") simp_all
next
  case (send j)
  with assms(2,3,4) show ?thesis by (cases "i = j") simp_all
next
  case (release j)
  with assms(2,3,4) show ?thesis by (cases "i = j") simp_all
next
  case (leave j)
  with assms(2,3,4) show ?thesis by (cases "i = j") simp_all
next
  case close
  with assms(3,4) show ?thesis by simp
next
  case (receive r rest)
  with assms(3,4) show ?thesis by simp
qed












section \<open>The claims\<close>

text \<open>
  Claim C1 (as the code has it). Under FetchOnly, with a working copy in the target
  directory, a failed update is the result of \<^verbatim>\<open>CloneRepository\<close>: the update has
  run once (at most one fetch), nothing sleeps and nothing is cloned. The failure is
  not retried, whatever \<^verbatim>\<open>MaxRetries\<close> is.
\<close>

theorem C1_failed_update_is_final:
  assumes "CloneOptions.ExistingRepo opts = FetchOnly" and "statGit w" and "mkdirAll w = None"
    and "snd (fetchAndUpdate w opts) = Some err"
  shows "CloneRepository w opts = (MkdirAll (TargetDir opts) # fst (fetchAndUpdate w opts), Some err)
    \<and> length (filter isFetch (fst (CloneRepository w opts))) \<le> 1
    \<and> sleeps (fst (CloneRepository w opts)) = []
    \<and> cloneAttempts (fst (CloneRepository w opts)) = 0"
proof -
  have h: "handleExistingRepo w opts = fetchAndUpdate w opts"
    using assms(1,2) by (rule handleExistingRepo_FetchOnly)
  have "CloneOptions.ExistingRepo opts \<noteq> SkipExisting" using assms(1) by simp
  with assms(3,4) h have r: "CloneRepository w opts =
      (MkdirAll (TargetDir opts) # fst (fetchAndUpdate w opts), Some err)"
    using CloneRepository_resolver_error[of w opts err] by simp
  have q: "cloneAttempts (fst (fetchAndUpdate w opts)) = 0" "sleeps (fst (fetchAndUpdate w opts)) = []"
    using handleExistingRepo_quiet[of w opts] h by simp_all
  show ?thesis
    unfolding r using q fetchAndUpdate_one_fetch[of w opts] by (simp add: cloneAttempts_def)
qed

text \<open>Witness of C1: the remote cannot be reached for the fetch.\<close>

theorem C1_witness:
  "CloneOptions.ExistingRepo (exOptions\<lparr>CloneOptions.ExistingRepo := FetchOnly\<rparr>) = FetchOnly
   \<and> statGit exWorldFetchFails
   \<and> CloneRepository exWorldFetchFails (exOptions\<lparr>CloneOptions.ExistingRepo := FetchOnly\<rparr>) =
       ([MkdirAll ''/srv/acme/tool'',
         ProgressFunc ''Updating existing repository: https://github.com/acme/tool.git'',
         Getwd, Chdir ''/srv/acme/tool'', Git [''fetch'', ''--all'', ''--prune''],
         Chdir ''/home/dev''],
        Some (ErrFetch ''exit status 128'' ''fatal: unable to access the remote''))"
proof -
  let ?opts = "exOptions\<lparr>CloneOptions.ExistingRepo := FetchOnly\<rparr>"
  have a: "CloneOptions.ExistingRepo ?opts = FetchOnly" by simp
  have b: "statGit exWorldFetchFails"
    by (simp add: exWorldFetchFails_def exWorldExisting_def)
  have c: "mkdirAll exWorldFetchFails = None"
    by (simp add: exWorldFetchFails_def exWorldExisting_def exWorld_def)
  have f: "fetchAndUpdate exWorldFetchFails ?opts =
      ([ProgressFunc ''Updating existing repository: https://github.com/acme/tool.git'',
        Getwd, Chdir ''/srv/acme/tool'', Git [''fetch'', ''--all'', ''--prune''],
        Chdir ''/home/dev''],
       Some (ErrFetch ''exit status 128'' ''fatal: unable to access the remote''))"
    by (simp add: fetchAndUpdate_def exWorldFetchFails_def exWorldExisting_def exWorld_def
        exOptions_def DefaultCloneOptions_def)
  then have d: "snd (fetchAndUpdate exWorldFetchFails ?opts) =
      Some (ErrFetch ''exit status 128'' ''fatal: unable to access the remote'')" by simp
  have t: "TargetDir ?opts = ''/srv/acme/tool''" by (simp add: exOptions_def)
  show ?thesis
    using C1_failed_update_is_final[OF a b c d] a b f t by simp
qed

text \<open>
  Counterexample to C1 as stated. With three retries allowed, a failed fetch is returned
  after a single fetch and no sleep: it is not retried. And after a successful update
  (fetch and reset both succeed) \<^verbatim>\<open>CloneRepository\<close> goes on to the clone loop, here
  four clone attempts into the existing directory, and returns their failure.
\<close>

theorem C1_counterexample:
  "MaxRetries (exOptions\<lparr>CloneOptions.ExistingRepo := FetchOnly\<rparr>) = 3
   \<and> snd (CloneRepository exWorldFetchFails (exOptions\<lparr>CloneOptions.ExistingRepo := FetchOnly\<rparr>)) =
       Some (ErrFetch ''exit status 128'' ''fatal: unable to access the remote'')
   \<and> length (filter isFetch
        (fst (CloneRepository exWorldFetchFails (exOptions\<lparr>CloneOptions.ExistingRepo := FetchOnly\<rparr>)))) = 1
   \<and> sleeps (fst (CloneRepository exWorldFetchFails (exOptions\<lparr>CloneOptions.ExistingRepo := FetchOnly\<rparr>))) = []
   \<and> gitFetch exWorldExisting = None \<and> gitReset exWorldExisting = None
   \<and> cloneAttempts (fst (CloneRepository exWorldExisting (exOptions\<lparr>CloneOptions.ExistingRepo := FetchOnly\<rparr>))) = 4
   \<and> snd (CloneRepository exWorldExisting (exOptions\<lparr>CloneOptions.ExistingRepo := FetchOnly\<rparr>)) =
       Some (ErrCloneAfter 3 (Some (ErrCloneFailed ''exit status 128''
         ''fatal: destination path already exists and is not an empty directory.'')))"
  by (simp add: eval_defs exWorldFetchFails_def exWorldExisting_def exWorld_def exOptions_def
      cloneAttempts_def)







text \<open>
  Claim C4, evaluated where the code departs from it. A repository whose URL holds the
  word \<^verbatim>\<open>Updating\<close>, under SkipExisting, with a working copy in place:
  \<^verbatim>\<open>CloneRepository\<close> succeeds without a clone and without a removal, but the progress
  closure reads the notice \<^verbatim>\<open>Skipping existing repository: <URL>\<close> as an update, and
  the result then sets the status to Success instead of Skipped.
\<close>

theorem C4_skip_status_evaluation:
  "Repository.ExistingRepo (exUpdatingRepo ! 0) = SkipExisting
   \<and> statGit exWorldExisting
   \<and> CloneRepository exWorldExisting (jobOptions ''/srv/acme/Updating'' (exUpdatingRepo ! 0)) =
       ([MkdirAll ''/srv/acme/Updating'',
         ProgressFunc ''Skipping existing repository: https://github.com/acme/Updating.git''],
        None)
   \<and> cloneAttempts
        (fst (CloneRepository exWorldExisting
           (jobOptions ''/srv/acme/Updating'' (exUpdatingRepo ! 0)))) = 0
   \<and> filter isRemoval
        (fst (CloneRepository exWorldExisting
           (jobOptions ''/srv/acme/Updating'' (exUpdatingRepo ! 0)))) = []
   \<and> statusHistory 0
        (jobEvents exWorldExisting (jobOptions ''/srv/acme/Updating'' (exUpdatingRepo ! 0)) 0)
        exUpdatingRepo =
       [StatusPending, StatusUpdating, StatusSuccess]"
  by (simp add: eval_defs exWorldExisting_def exWorld_def exUpdatingRepo_def AddRepository_def
      jobEvents_def jobResult_def handleResult_def applyResult_def progressClosure_def
      Contains_def sublist_code cloneAttempts_def)

text \<open>
  Claim C5, evaluated where the code departs from it. With the default of 3 retries and
  every clone failing, four attempts are made and the last error is wrapped, but the
  failure reports \<^verbatim>\<open>MaxRetries\<close> (3) as the number of attempts.
\<close>

theorem C5_attempt_count_evaluation:
  "cloneAttempts (fst (CloneRepository exWorld exOptions)) = 4
   \<and> snd (CloneRepository exWorld exOptions) =
       Some (ErrCloneAfter 3
         (Some (ErrCloneFailed ''exit status 128'' ''fatal: unable to access the remote'')))
   \<and> errorString (the (snd (CloneRepository exWorld exOptions))) =
       ''failed to clone after 3 attempts: clone failed: exit status 128'' @ [CHR 0x0A] @
       ''Output: fatal: unable to access the remote''
   \<and> last (messages (fst (CloneRepository exWorld exOptions))) =
       ''Clone attempt 4 failed: clone failed: exit status 128'' @ [CHR 0x0A] @
       ''Output: fatal: unable to access the remote''"
  by (simp add: eval_defs exWorld_def exOptions_def cloneAttempts_def)

text \<open>
  Claim C6. The collector matches a result to the first registered repository with the
  result's source URL (later repositories with the same URL are left alone); a
  successful result sets the status to Success unless it is Skipped, which stays; a
  failed result sets the status to Failed and stores the error.
\<close>

theorem C6_outcome_attribution:
  assumes "i < length repositories"
    and "Repository.URL (repositories ! i) = RepoURL result"
    and "\<forall>j<i. Repository.URL (repositories ! j) \<noteq> RepoURL result"
  shows "length (handleResult result repositories) = length repositories
    \<and> (\<forall>j<length repositories. j \<noteq> i \<longrightarrow>
          handleResult result repositories ! j = repositories ! j)
    \<and> (Success result \<and> Status (repositories ! i) \<noteq> StatusSkipped \<longrightarrow>
          handleResult result repositories ! i = (repositories ! i)\<lparr>Status := StatusSuccess\<rparr>)
    \<and> (Success result \<and> Status (repositories ! i) = StatusSkipped \<longrightarrow>
          handleResult result repositories ! i = repositories ! i)
    \<and> (\<not> Success result \<longrightarrow>
          handleResult result repositories ! i =
            (repositories ! i)\<lparr>Status := StatusFailed, Error := CloneResult.Error result\<rparr>)"
proof -
  have "findRepository repositories (RepoURL result) = Some i"
    using assms by (rule findRepository_first)
  then have h: "handleResult result repositories =
      repositories[i := applyResult result (repositories ! i)]"
    by (simp add: handleResult_def)
  show ?thesis
    unfolding h using assms(1) by (simp add: applyResult_def)
qed

text \<open>
  Witness of C6: a failed result for a URL that two repositories share, a successful
  result for a pending repository, and a successful result for a skipped one.
\<close>

theorem C6_witness:
  "Repository.URL (exDuplicates ! 1) = ''https://github.com/acme/tool.git''
   \<and> Repository.URL (exDuplicates ! 2) = ''https://github.com/acme/tool.git''
   \<and> handleResult
        \<lparr>RepoURL = ''https://github.com/acme/tool.git'', Success = False,
         Error = Some (ErrCreateDir ''mkdir /srv: read-only file system'')\<rparr> exDuplicates ! 1 =
      (exDuplicates ! 1)\<lparr>Status := StatusFailed,
         Error := Some (ErrCreateDir ''mkdir /srv: read-only file system'')\<rparr>
   \<and> handleResult
        \<lparr>RepoURL = ''https://github.com/acme/tool.git'', Success = False,
         Error = Some (ErrCreateDir ''mkdir /srv: read-only file system'')\<rparr> exDuplicates ! 2 =
      exDuplicates ! 2
   \<and> handleResult
        \<lparr>RepoURL = ''https://github.com/acme/docs.git'', Success = True, Error = None\<rparr>
        exDuplicates ! 0 =
      (exDuplicates ! 0)\<lparr>Status := StatusSuccess\<rparr>
   \<and> handleResult
        \<lparr>RepoURL = ''https://github.com/acme/docs.git'', Success = True, Error = None\<rparr>
        (exDuplicates[0 := (exDuplicates ! 0)\<lparr>Status := StatusSkipped\<rparr>]) ! 0 =
      (exDuplicates ! 0)\<lparr>Status := StatusSkipped\<rparr>"
proof -
  let ?failed = "\<lparr>RepoURL = ''https://github.com/acme/tool.git'', Success = False,
      Error = Some (ErrCreateDir ''mkdir /srv: read-only file system'')\<rparr>"
  let ?ok = "\<lparr>RepoURL = ''https://github.com/acme/docs.git'', Success = True, Error = None\<rparr>"
  let ?skipped = "exDuplicates[0 := (exDuplicates ! 0)\<lparr>Status := StatusSkipped\<rparr>]"
  have len: "length exDuplicates = 3"
    by (simp add: exDuplicates_def AddRepository_def)
  have a: "(1::nat) < length exDuplicates" using len by simp
  have b: "Repository.URL (exDuplicates ! 1) = RepoURL ?failed"
    by (simp add: exDuplicates_def AddRepository_def)
  have c: "\<forall>j<1::nat. Repository.URL (exDuplicates ! j) \<noteq> RepoURL ?failed"
    by (simp add: exDuplicates_def AddRepository_def)
  have d: "Repository.URL (exDuplicates ! 2) = ''https://github.com/acme/tool.git''"
    by (simp add: exDuplicates_def AddRepository_def)
  have first: "handleResult ?failed exDuplicates ! 1 =
      (exDuplicates ! 1)\<lparr>Status := StatusFailed,
         Error := Some (ErrCreateDir ''mkdir /srv: read-only file system'')\<rparr>"
    and later: "handleResult ?failed exDuplicates ! 2 = exDuplicates ! 2"
    using C6_outcome_attribution[OF a b c] len by simp_all
  have a0: "(0::nat) < length exDuplicates" using len by simp
  have b0: "Repository.URL (exDuplicates ! 0) = RepoURL ?ok"
    by (simp add: exDuplicates_def AddRepository_def)
  have c0: "\<forall>j<0::nat. Repository.URL (exDuplicates ! j) \<noteq> RepoURL ?ok" by simp
  have p0: "Status (exDuplicates ! 0) = StatusPending"
    by (simp add: exDuplicates_def AddRepository_def)
  have success: "handleResult ?ok exDuplicates ! 0 = (exDuplicates ! 0)\<lparr>Status := StatusSuccess\<rparr>"
    using C6_outcome_attribution[OF a0 b0 c0] p0 by simp
  have a1: "(0::nat) < length ?skipped" using len by simp
  have b1: "Repository.URL (?skipped ! 0) = RepoURL ?ok" using b0 len by simp
  have c1: "\<forall>j<0::nat. Repository.URL (?skipped ! j) \<noteq> RepoURL ?ok" by simp
  have p1: "Status (?skipped ! 0) = StatusSkipped" using len by simp
  have "handleResult ?ok ?skipped ! 0 = ?skipped ! 0"
    using C6_outcome_attribution[OF a1 b1 c1] p1 by simp
  then have kept: "handleResult ?ok ?skipped ! 0 = (exDuplicates ! 0)\<lparr>Status := StatusSkipped\<rparr>"
    using len by simp
  show ?thesis
    using b d first later success kept by simp
qed

text \<open>
  Claim C7, evaluated where the code departs from it. A repository whose URL holds the
  word \<^verbatim>\<open>Skipping\<close>, with a remote that answers every clone with an error naming the
  URL: each failure message sets the status to Skipped (a terminal status), the retry
  message that follows sets it to Cloning, and the failed result sets the last Skipped
  to Failed.
\<close>

theorem C7_terminal_status_evaluation:
  "statusHistory 0
     (jobEvents exWorldNotFound (jobOptions ''/srv/acme/Skipping'' (exSkippingRepo ! 0)) 0)
     exSkippingRepo =
   [StatusPending, StatusSkipped, StatusCloning, StatusSkipped, StatusCloning,
    StatusSkipped, StatusCloning, StatusSkipped, StatusFailed]
   \<and> terminal StatusSkipped
   \<and> messages (fst (CloneRepository exWorldNotFound
        (jobOptions ''/srv/acme/Skipping'' (exSkippingRepo ! 0)))) ! 1 =
       ''Retrying in 1s... (attempt 2/3)''"
  by (simp add: eval_defs exWorldNotFound_def exWorld_def exSkippingRepo_def AddRepository_def
      jobEvents_def jobResult_def handleResult_def applyResult_def progressClosure_def
      Contains_def sublist_code retryMsg_def DurationString_def backoff_def Second_def
      fmtFrac.simps terminal_def)

text \<open>
  Claim C8. In every state a run can reach, at most \<^verbatim>\<open>maxConcurrent\<close> workers run an
  executor: the slots taken are exactly the workers between their acquire and their
  release, and never more than \<^verbatim>\<open>maxConcurrent\<close>. A worker starts to run only by
  taking a free slot, and a worker that has sent its result, whatever the result, can
  always give its slot back.
\<close>

theorem C8_bounded_executors:
  assumes "reachable maxConcurrent rs s"
  shows "running s \<le> maxConcurrent
    \<and> semaphore s = holders s
    \<and> semaphore s \<le> maxConcurrent
    \<and> (\<forall>s' i. step maxConcurrent rs s s' \<and> i < length (workers s) \<and>
          workers s ! i \<noteq> Run \<and> workers s' ! i = Run \<longrightarrow>
          workers s ! i = Acquire \<and> semaphore s < maxConcurrent \<and>
          semaphore s' = semaphore s + 1)
    \<and> (\<forall>i<length (workers s). workers s ! i = Release \<longrightarrow>
          step maxConcurrent rs s
            (s\<lparr>workers := (workers s)[i := Done], semaphore := semaphore s - 1\<rparr>))"
proof -
  have a: "semaphore s = holders s" using assms by (rule reachable_semaphore)
  have b: "semaphore s \<le> maxConcurrent" using assms by (rule reachable_bound)
  have "running s \<le> holders s" by (rule running_holders)
  with a b have c: "running s \<le> maxConcurrent" by simp
  have d: "\<forall>s' i. step maxConcurrent rs s s' \<and> i < length (workers s) \<and>
          workers s ! i \<noteq> Run \<and> workers s' ! i = Run \<longrightarrow>
          workers s ! i = Acquire \<and> semaphore s < maxConcurrent \<and>
          semaphore s' = semaphore s + 1"
    using enters_run by blast
  have e: "\<forall>i<length (workers s). workers s ! i = Release \<longrightarrow>
          step maxConcurrent rs s
            (s\<lparr>workers := (workers s)[i := Done], semaphore := semaphore s - 1\<rparr>)"
    using release_enabled[OF assms] by blast
  show ?thesis using a b c d e by blast
qed

text \<open>
  Witness of C8: one slot and two jobs; while the second job runs, the first is not
  admitted, and once the second job has sent its result it gives the slot back.
\<close>

theorem C8_witness:
  "schedule 1 (batchResults exBatchWorlds exBatch) (take 3 exSchedule) initial =
     Some \<lparr>workers = [Acquire, Run], semaphore = 1, wg = 2, results = [], closed = False,
           received = []\<rparr>
   \<and> running \<lparr>workers = [Acquire, Run], semaphore = 1, wg = 2, results = [], closed = False,
              received = []\<rparr> = 1
   \<and> perform 1 (batchResults exBatchWorlds exBatch) (Admit 0)
        \<lparr>workers = [Acquire, Run], semaphore = 1, wg = 2, results = [], closed = False,
         received = []\<rparr> = None
   \<and> step 1 (batchResults exBatchWorlds exBatch)
        \<lparr>workers = [Acquire, Release], semaphore = 1, wg = 2,
         results = [batchResults exBatchWorlds exBatch ! 1], closed = False, received = []\<rparr>
        \<lparr>workers = [Acquire, Done], semaphore = 0, wg = 2,
         results = [batchResults exBatchWorlds exBatch ! 1], closed = False, received = []\<rparr>"
proof -
  let ?rs = "batchResults exBatchWorlds exBatch"
  let ?s = "\<lparr>workers = [Acquire, Run], semaphore = 1, wg = 2, results = [], closed = False,
           received = []\<rparr>"
  let ?t = "\<lparr>workers = [Acquire, Release], semaphore = 1, wg = 2, results = [?rs ! 1],
           closed = False, received = []\<rparr>"
  have start: "reachable 1 ?rs initial" by (rule reachable.start)
  have run: "schedule 1 ?rs (take 3 exSchedule) initial = Some ?s"
    unfolding exBatch_results by (rule exSchedule_prefix)
  have rs: "reachable 1 ?rs ?s" using start run by (rule schedule_reachable)
  have "running ?s \<le> 1" using C8_bounded_executors[OF rs] by simp
  moreover have "1 \<le> running ?s" by (simp add: running_def)
  ultimately have one: "running ?s = 1" by simp
  have refused: "perform 1 ?rs (Admit 0) ?s = None" by simp
  have "schedule 1 ?rs (take 4 exSchedule) initial = Some ?t"
    unfolding exBatch_results using exSchedule_sent by simp
  with start have rt: "reachable 1 ?rs ?t" by (rule schedule_reachable)
  from C8_bounded_executors[OF rt]
  have rel: "\<forall>i<length (workers ?t). workers ?t ! i = Release \<longrightarrow>
      step 1 ?rs ?t (?t\<lparr>workers := (workers ?t)[i := Done], semaphore := semaphore ?t - 1\<rparr>)"
    by blast
  have "step 1 ?rs ?t (?t\<lparr>workers := (workers ?t)[1 := Done], semaphore := semaphore ?t - 1\<rparr>)"
    by (rule rel[rule_format]) simp_all
  then have gives_back: "step 1 ?rs ?t
      \<lparr>workers = [Acquire, Done], semaphore = 0, wg = 2, results = [?rs ! 1], closed = False,
       received = []\<rparr>"
    by simp
  show ?thesis using run one refused gives_back by simp
qed



text \<open>
  Claim C10. With \<^verbatim>\<open>MaxRetries < 0\<close>, after the directory is created and the resolver
  returns no error, the loop body does not run: nothing is cloned and the result is the
  error \<^verbatim>\<open>failed to clone after <MaxRetries> attempts\<close> that wraps \<^verbatim>\<open>nil\<close>.
\<close>

theorem C10_negative_max_retries:
  assumes "MaxRetries opts < 0" and "mkdirAll w = None"
    and "snd (handleExistingRepo w opts) = None"
  shows "fst (cloneLoop w opts 0 None) = []
    \<and> cloneAttempts (fst (CloneRepository w opts)) = 0
    \<and> snd (CloneRepository w opts) = Some (ErrCloneAfter (MaxRetries opts) None)
    \<and> Unwrap (ErrCloneAfter (MaxRetries opts) None) = None"
proof -
  have loop: "cloneLoop w opts 0 None = ([], Some (ErrCloneAfter (MaxRetries opts) None))"
    using assms(1) by (rule cloneLoop_exhausted)
  have "CloneRepository w opts =
      (MkdirAll (TargetDir opts) # fst (handleExistingRepo w opts), Some (ErrCloneAfter (MaxRetries opts) None))"
    using CloneRepository_proceeds[OF assms(2,3)] loop by simp
  moreover have "cloneAttempts (MkdirAll (TargetDir opts) # fst (handleExistingRepo w opts)) = 0"
    using handleExistingRepo_quiet[of w opts] by (simp add: cloneAttempts_def)
  ultimately show ?thesis using loop by simp
qed

text \<open>Witness of C10: \<^verbatim>\<open>MaxRetries = -1\<close> and a fresh target directory.\<close>

theorem C10_witness:
  "MaxRetries (exOptions\<lparr>MaxRetries := - 1\<rparr>) < 0
   \<and> CloneRepository exWorld (exOptions\<lparr>MaxRetries := - 1\<rparr>) =
       ([MkdirAll ''/srv/acme/tool''], Some (ErrCloneAfter (- 1) None))
   \<and> errorString (ErrCloneAfter (- 1) None) = ''failed to clone after -1 attempts: %!w(<nil>)''"
proof -
  let ?opts = "exOptions\<lparr>MaxRetries := - 1\<rparr>"
  have a: "MaxRetries ?opts < 0" by simp
  have b: "mkdirAll exWorld = None" by (simp add: exWorld_def)
  have h: "handleExistingRepo exWorld ?opts = ([], None)"
    by (simp add: handleExistingRepo_def isGitRepo_def exWorld_def)
  then have c: "snd (handleExistingRepo exWorld ?opts) = None" by simp
  have d: "TargetDir ?opts = ''/srv/acme/tool''" by (simp add: exOptions_def)
  have "CloneRepository exWorld ?opts =
      (MkdirAll (TargetDir ?opts) # fst (handleExistingRepo exWorld ?opts) @ fst (cloneLoop exWorld ?opts 0 None),
       snd (cloneLoop exWorld ?opts 0 None))"
    using b c by (rule CloneRepository_proceeds)
  moreover have "snd (cloneLoop exWorld ?opts 0 None) = Some (ErrCloneAfter (- 1) None)"
    by (simp add: cloneLoop_exhausted)
  ultimately have "CloneRepository exWorld ?opts = ([MkdirAll ''/srv/acme/tool''], Some (ErrCloneAfter (- 1) None))"
    using C10_negative_max_retries[OF a b c] h d by simp
  moreover have "errorString (ErrCloneAfter (- 1) None) = ''failed to clone after -1 attempts: %!w(<nil>)''"
    by (simp add: itoa_def fmtInt.simps digit_def)
  ultimately show ?thesis by simp
qed

end
